theory Spec2Isabelle
  imports Complex_Main "HOL-Library.Sublist"
begin

section \<open>Ambient Skill Sync: the lesson selection engine of App.tsx\<close>

text \<open>
  The component keeps its state in React hooks and changes it from a periodic timer and
  from click handlers. Each handler is embedded as a function from the state before to the
  state after. The calls the handlers make to the clock (\<open>Date.now()\<close>,
  \<open>new Date().getHours()\<close>) and to \<open>Math.random()\<close> are parameters of the
  embedded functions, one parameter per call site. JavaScript numbers are embedded as
  \<open>int\<close> where the program only holds integers (experience points, streak, level,
  timestamps), as \<open>nat\<close> for the seen counters (which start absent and are only ever
  incremented) and as \<open>real\<close> for the random draws and the selection weights.

  Purely presentational state (the notification text and its visibility, the pulse flag,
  the last gained XP shown in the banner) is not part of the embedding.
\<close>

subsection \<open>Types\<close>

record Coordinates =
  lat :: real
  lon :: real

text \<open>
  \<open>Lesson.id\<close> and \<open>Lesson.text\<close> are named \<open>lesson_id\<close> and \<open>lesson_text\<close>;
  \<open>Context.tags\<close> is \<open>ctx_tags\<close>, \<open>Profile.xp\<close> is \<open>profile_xp\<close> and
  \<open>LessonItem.context\<close> is \<open>item_context\<close> and \<open>LastTrigger.at\<close> is
  \<open>trigger_at\<close>, so that every field has its own selector and none is a keyword.
\<close>

record Lesson =
  lesson_id :: string
  title :: string
  tags :: "string list"
  lesson_text :: string
  xp :: int
  icon :: string
  color :: string

datatype TimeOfDay = Morning | Afternoon | Evening | Manual

record Context =
  timeOfDay :: TimeOfDay
  ctx_tags :: "string list"
  coords :: "Coordinates option"
  mood :: string

record LessonItem = Lesson +
  triggeredAt :: "int option"
  item_context :: "Context option"

record Profile =
  name :: string
  skills :: "string list"
  profile_xp :: int
  streak :: int
  level :: int

record LastTrigger =
  lessonId :: string
  trigger_at :: int

subsection \<open>Constants\<close>

definition INITIAL_PROFILE :: Profile where
  "INITIAL_PROFILE =
     \<lparr> name = ''Alex Chen'',
       skills = [''Productivity'', ''AI Literacy'', ''Culinary Arts'', ''Mindfulness'', ''Finance''],
       profile_xp = 245,
       streak = 14,
       level = 7 \<rparr>"

text \<open>The icons are emoji; they are given as their UTF-8 bytes.\<close>

definition LESSONS :: "Lesson list" where
  "LESSONS =
   [ \<lparr> lesson_id = ''p1'',
       title = ''Productivity Pulse'',
       tags = [''Productivity'', ''Focus'', ''Time Management''],
       lesson_text = ''Apply the 2-Minute Rule: if a task takes less than two minutes, do it immediately. This prevents small tasks from piling up.'',
       xp = 25,
       icon = [CHR 0xE2, CHR 0x9A, CHR 0xA1],
       color = ''from-amber-500 to-orange-500'' \<rparr>,
     \<lparr> lesson_id = ''c1'',
       title = ''Culinary Chemistry'',
       tags = [''Cooking'', ''Science'', ''Kitchen''],
       lesson_text = ''Add a pinch of salt to coffee grounds before brewing to reduce bitterness by blocking bitter receptors on your tongue.'',
       xp = 30,
       icon = [CHR 0xF0, CHR 0x9F, CHR 0x8D, CHR 0xB3],
       color = ''from-rose-500 to-pink-500'' \<rparr>,
     \<lparr> lesson_id = ''a1'',
       title = ''AI Insight'',
       tags = [''AI'', ''Technology'', ''Learning''],
       lesson_text = ''Attention mechanisms in transformers allow models to focus on relevant parts of input, similar to human concentration.'',
       xp = 40,
       icon = [CHR 0xF0, CHR 0x9F, CHR 0xA4, CHR 0x96],
       color = ''from-blue-500 to-cyan-500'' \<rparr>,
     \<lparr> lesson_id = ''s1'',
       title = ''Mindful Minute'',
       tags = [''Wellness'', ''Mindfulness'', ''Health''],
       lesson_text = ''Practice 'box breathing': inhale 4s, hold 4s, exhale 4s, hold 4s. Repeat 4 times to reset your nervous system.'',
       xp = 20,
       icon = [CHR 0xF0, CHR 0x9F, CHR 0xA7, CHR 0x98],
       color = ''from-emerald-500 to-teal-500'' \<rparr>,
     \<lparr> lesson_id = ''e1'',
       title = ''Financial Flash'',
       tags = [''Finance'', ''Investing'', ''Growth''],
       lesson_text = ''The Rule of 72: Divide 72 by your annual return rate to estimate how many years it takes to double your investment.'',
       xp = 35,
       icon = [CHR 0xF0, CHR 0x9F, CHR 0x92, CHR 0xB0],
       color = ''from-purple-500 to-violet-500'' \<rparr>,
     \<lparr> lesson_id = ''h1'',
       title = ''Health Hack'',
       tags = [''Health'', ''Wellness'', ''Habit''],
       lesson_text = ''Drink a glass of water before each meal. This aids digestion and helps with portion control naturally.'',
       xp = 15,
       icon = [CHR 0xF0, CHR 0x9F, CHR 0x92, CHR 0xA7],
       color = ''from-sky-500 to-blue-500'' \<rparr> ]"

definition DEFAULT_ENV_TAGS :: "string list" where
  \<comment> \<open>the literal \<open>["Focus", "Learning", "Wellness"]\<close>, written out in \<open>useState\<close> and in \<open>resetDemo\<close>\<close>
  "DEFAULT_ENV_TAGS = [''Focus'', ''Learning'', ''Wellness'']"

subsection \<open>Utilities\<close>

text \<open>\<open>getTimeOfDay\<close>, with the hour read from the clock as its argument.\<close>

definition getTimeOfDay :: "nat \<Rightarrow> TimeOfDay" where
  "getTimeOfDay hour =
     (if hour \<ge> 5 \<and> hour < 12 then Morning
      else if hour < 17 then Afternoon
      else Evening)"

text \<open>
  \<open>Array.prototype.includes\<close> and \<open>Array.prototype.some\<close>. On strings
  \<open>includes\<close> compares by exact equality of the two strings (case-sensitive).
\<close>

fun includes_arr :: "'a list \<Rightarrow> 'a \<Rightarrow> bool" where
  "includes_arr [] y = False"
| "includes_arr (x # xs) y = (x = y \<or> includes_arr xs y)"

fun some_arr :: "('a \<Rightarrow> bool) \<Rightarrow> 'a list \<Rightarrow> bool" where
  "some_arr p [] = False"
| "some_arr p (x # xs) = (p x \<or> some_arr p xs)"

text \<open>
  An indexed read \<open>xs[i]\<close>: \<open>undefined\<close> (here \<open>None\<close>) outside the array.
  \<open>random_index r n\<close> is \<open>Math.floor(r * n)\<close> for a draw \<open>r\<close>.
\<close>

definition index_read :: "'a list \<Rightarrow> int \<Rightarrow> 'a option" where
  "index_read xs i = (if 0 \<le> i \<and> i < int (length xs) then Some (xs ! nat i) else None)"

definition random_index :: "real \<Rightarrow> nat \<Rightarrow> int" where
  "random_index r n = \<lfloor>r * real n\<rfloor>"

text \<open>\<open>Math.random()\<close> returns a number in \<open>[0, 1)\<close>.\<close>

definition is_draw :: "real \<Rightarrow> bool" where
  "is_draw r = (0 \<le> r \<and> r < 1)"

definition moods :: "string list" where
  "moods = [''Focused'', ''Curious'', ''Relaxed'', ''Energetic'', ''Creative'', ''Analytical'']"

text \<open>
  \<open>getMood\<close>, with its draw as argument. Its result type in the source is \<open>string\<close>:
  for a draw in \<open>[0, 1)\<close> the index is below \<open>moods.length\<close> (lemma
  \<open>getMood_in_moods\<close> below).
\<close>

definition getMood :: "real \<Rightarrow> string" where
  "getMood r = moods ! nat (random_index r (length moods))"

subsection \<open>The component's state\<close>

record State =
  ambientOn :: bool
  lessonsSeen :: "string \<rightharpoonup> nat"
  queue :: "LessonItem list"
  lastTrigger :: "LastTrigger option"
  profile :: Profile
  currentLesson :: "LessonItem option"
  envTags :: "string list"
  lastLocation :: "Coordinates option"

text \<open>
  The state after mounting. \<open>ambientOn\<close>, \<open>lessonsSeen\<close> and \<open>envTags\<close> are read
  from the browser store (\<open>safeGet\<close>), so they are arguments.
\<close>

definition initial_state :: "bool \<Rightarrow> (string \<rightharpoonup> nat) \<Rightarrow> string list \<Rightarrow> State" where
  "initial_state storedAmbientOn storedLessonsSeen storedEnvTags =
     \<lparr> ambientOn = storedAmbientOn,
       lessonsSeen = storedLessonsSeen,
       queue = [],
       lastTrigger = None,
       profile = INITIAL_PROFILE,
       currentLesson = None,
       envTags = storedEnvTags,
       lastLocation = None \<rparr>"

subsection \<open>The ambient engine\<close>

text \<open>
  What one timer tick reads from outside: the hour, the six draws in the order of their
  call sites, and the two readings of \<open>Date.now()\<close> (one inside the queue updater, one
  for the last-trigger marker).
\<close>

record TickInputs =
  hour :: nat
  r_mood :: real
  r_idle :: real
  r_waiting :: real
  r_location :: real
  r_pick :: real
  r_fallback :: real
  now_item :: int
  now_marker :: int

definition push :: "'a list \<Rightarrow> 'a \<Rightarrow> 'a list" where
  "push xs x = xs @ [x]"

definition buildSimulatedContext :: "TickInputs \<Rightarrow> State \<Rightarrow> Context" where
  "buildSimulatedContext inp s =
     (let tod = getTimeOfDay (hour inp);
          m = getMood (r_mood inp);
          idle = (r_idle inp > 0.6);
          waiting = (r_waiting inp > 0.7);
          tags0 = envTags s;
          tags1 = (if idle then push tags0 ''Idle'' else tags0);
          tags2 = (if waiting then push tags1 ''Waiting'' else tags1);
          tags3 = (if tod = Morning then push tags2 ''Morning'' else tags2);
          tags4 = (if tod = Evening then push tags3 ''Evening'' else tags3);
          tags5 = (if lastLocation s \<noteq> None \<and> r_location inp > 0.8
                   then push tags4 ''Location-based'' else tags4);
          tags6 = push tags5 m
      in \<lparr> timeOfDay = tod, ctx_tags = tags6, coords = lastLocation s, mood = m \<rparr>)"

text \<open>The filter at the head of \<open>pickLessonForContext\<close>.\<close>

definition candidates :: "Context \<Rightarrow> Profile \<Rightarrow> Lesson list" where
  "candidates ctx p =
     filter (\<lambda>lesson. some_arr (\<lambda>tag. includes_arr (ctx_tags ctx) tag \<or> includes_arr (skills p) tag)
                        (tags lesson))
            LESSONS"

text \<open>\<open>lessonsSeen[id] || 0\<close>: an absent entry and the entry 0 both give 0.\<close>

definition seen_or_0 :: "(string \<rightharpoonup> nat) \<Rightarrow> string \<Rightarrow> nat" where
  "seen_or_0 seen i = (case seen i of None \<Rightarrow> 0 | Some n \<Rightarrow> (if n = 0 then 0 else n))"

definition weightedCandidates :: "(string \<rightharpoonup> nat) \<Rightarrow> Lesson list \<Rightarrow> (Lesson \<times> real) list" where
  "weightedCandidates seen cs =
     map (\<lambda>lesson. (lesson, 1 / (real (seen_or_0 seen (lesson_id lesson)) + 1))) cs"

text \<open>The \<open>for\<close> loop of the roulette walk; \<open>None\<close> when the loop runs off the end.\<close>

fun walk :: "(Lesson \<times> real) list \<Rightarrow> real \<Rightarrow> Lesson option" where
  "walk [] random = None"
| "walk ((lesson, weight) # rest) random =
     (if random < weight then Some lesson else walk rest (random - weight))"

definition pickLessonForContext ::
  "Profile \<Rightarrow> (string \<rightharpoonup> nat) \<Rightarrow> Context \<Rightarrow> real \<Rightarrow> real \<Rightarrow> Lesson option" where
  "pickLessonForContext p seen ctx rPick rFallback =
     (let wcs = weightedCandidates seen (candidates ctx p);
          found =
            (if length wcs > 0
             then (let totalWeight = foldl (\<lambda>sum (lesson, weight). sum + weight) 0 wcs
                   in walk wcs (rPick * totalWeight))
             else None)
      in case found of
           Some lesson \<Rightarrow> Some lesson
         | None \<Rightarrow> index_read LESSONS (random_index rFallback (length LESSONS)))"

definition newItem :: "Lesson \<Rightarrow> int \<Rightarrow> Context \<Rightarrow> LessonItem" where
  \<comment> \<open>\<open>{ ...lesson, triggeredAt: Date.now(), context }\<close>\<close>
  "newItem lesson now ctx =
     Lesson.extend lesson (LessonItem.fields (Some now) (Some ctx))"

text \<open>The updater \<open>enqueueLesson\<close> hands to \<open>setQueue\<close>.\<close>

definition enqueue_updater :: "Lesson \<Rightarrow> Context \<Rightarrow> int \<Rightarrow> LessonItem list \<Rightarrow> LessonItem list" where
  "enqueue_updater lesson ctx now currentQueue =
     (if length currentQueue \<ge> 5 then currentQueue
      else if some_arr (\<lambda>item. lesson_id item = lesson_id lesson) currentQueue then currentQueue
      else newItem lesson now ctx # currentQueue)"

definition enqueueLesson :: "Lesson \<Rightarrow> Context \<Rightarrow> int \<Rightarrow> int \<Rightarrow> State \<Rightarrow> State" where
  "enqueueLesson lesson ctx nowItem nowMarker s =
     s\<lparr> queue := enqueue_updater lesson ctx nowItem (queue s),
        lastTrigger := Some \<lparr> lessonId = lesson_id lesson, trigger_at = nowMarker \<rparr> \<rparr>"

definition ambientTick :: "TickInputs \<Rightarrow> State \<Rightarrow> State" where
  "ambientTick inp s =
     (let ctx = buildSimulatedContext inp s in
      case pickLessonForContext (profile s) (lessonsSeen s) ctx (r_pick inp) (r_fallback inp) of
        Some lesson \<Rightarrow> enqueueLesson lesson ctx (now_item inp) (now_marker inp) s
      | None \<Rightarrow> s)"

subsection \<open>Handlers\<close>

definition showLesson :: "LessonItem \<Rightarrow> State \<Rightarrow> State" where
  "showLesson lesson s =
     s\<lparr> currentLesson := Some lesson,
        lessonsSeen := (lessonsSeen s)(lesson_id lesson \<mapsto> seen_or_0 (lessonsSeen s) (lesson_id lesson) + 1),
        profile := (profile s)\<lparr> profile_xp := profile_xp (profile s) + xp lesson,
                                streak := streak (profile s) + 1 \<rparr>,
        queue := filter (\<lambda>x. lesson_id x \<noteq> lesson_id lesson) (queue s) \<rparr>"

definition dismissLesson :: "State \<Rightarrow> State" where
  "dismissLesson s = s\<lparr> currentLesson := None \<rparr>"

text \<open>
  What one manual trigger reads from outside: the draw of \<open>getMood\<close>, the draw that
  indexes the relevant lessons (or the catalog), and the two readings of \<open>Date.now()\<close>.
\<close>

record ManualInputs =
  m_mood :: real
  m_pick :: real
  m_now_item :: int
  m_now_marker :: int

text \<open>The filter of \<open>manualTrigger\<close> and its choice of a lesson.\<close>

definition relevantLessons :: "string \<Rightarrow> Profile \<Rightarrow> Lesson list" where
  "relevantLessons tag p =
     filter (\<lambda>l. includes_arr (tags l) tag \<or> includes_arr (skills p) tag) LESSONS"

definition manual_lesson :: "string \<Rightarrow> Profile \<Rightarrow> real \<Rightarrow> Lesson option" where
  "manual_lesson tag p r =
     (let rl = relevantLessons tag p in
      if length rl > 0 then index_read rl (random_index r (length rl))
      else index_read LESSONS (random_index r (length LESSONS)))"

text \<open>The updater \<open>manualTrigger\<close> hands to \<open>setQueue\<close>; \<open>slice(0, 5)\<close> is \<open>take 5\<close>.\<close>

definition manual_updater :: "Lesson \<Rightarrow> Context \<Rightarrow> int \<Rightarrow> LessonItem list \<Rightarrow> LessonItem list" where
  "manual_updater lesson ctx now currentQueue =
     (if some_arr (\<lambda>item. lesson_id item = lesson_id lesson) currentQueue then currentQueue
      else take 5 (newItem lesson now ctx # currentQueue))"

definition manual_context :: "string \<Rightarrow> ManualInputs \<Rightarrow> State \<Rightarrow> Context" where
  "manual_context tag inp s =
     \<lparr> timeOfDay = Manual, ctx_tags = [tag, ''Manual''],
       coords = lastLocation s, mood = getMood (m_mood inp) \<rparr>"

definition manualTrigger :: "string \<Rightarrow> ManualInputs \<Rightarrow> State \<Rightarrow> State" where
  "manualTrigger tag inp s =
     (let ctx = manual_context tag inp s
      in case manual_lesson tag (profile s) (m_pick inp) of
           Some lesson \<Rightarrow>
             s\<lparr> queue := manual_updater lesson ctx (m_now_item inp) (queue s),
                lastTrigger := Some \<lparr> lessonId = lesson_id lesson, trigger_at = m_now_marker inp \<rparr> \<rparr>
         | None \<Rightarrow> s)"

definition resetDemo :: "State \<Rightarrow> State" where
  "resetDemo s =
     s\<lparr> profile := INITIAL_PROFILE,
        lessonsSeen := Map.empty,
        queue := [],
        currentLesson := None,
        envTags := DEFAULT_ENV_TAGS \<rparr>"

text \<open>
  \<open>addEnvTag\<close>: the argument \<open>trimmed\<close> is the value of \<open>tag.trim()\<close>; the empty
  string is falsy.
\<close>

definition addEnvTag :: "string \<Rightarrow> State \<Rightarrow> State" where
  "addEnvTag trimmed s =
     (if trimmed \<noteq> [] \<and> \<not> includes_arr (envTags s) trimmed
      then s\<lparr> envTags := trimmed # envTags s \<rparr>
      else s)"

definition removeEnvTag :: "string \<Rightarrow> State \<Rightarrow> State" where
  "removeEnvTag tag s = s\<lparr> envTags := filter (\<lambda>t. t \<noteq> tag) (envTags s) \<rparr>"

definition handleMarkDone :: "State \<Rightarrow> State" where
  "handleMarkDone s =
     (case currentLesson s of
        Some cl \<Rightarrow>
          dismissLesson (s\<lparr> profile := (profile s)\<lparr> profile_xp := profile_xp (profile s) + xp cl \<rparr> \<rparr>)
      | None \<Rightarrow> s)"

definition toggleAmbientMode :: "State \<Rightarrow> State" where
  "toggleAmbientMode s = s\<lparr> ambientOn := \<not> ambientOn s \<rparr>"

definition setLastLocation :: "Coordinates \<Rightarrow> State \<Rightarrow> State" where
  \<comment> \<open>the success callback of \<open>getCurrentPosition\<close>\<close>
  "setLastLocation c s = s\<lparr> lastLocation := Some c \<rparr>"

subsection \<open>Runs of the component\<close>

text \<open>
  Everything that changes the state: the timer tick (armed only while ambient mode is on),
  the click handlers, and the geolocation callback. A lesson is opened from a queue entry
  or from a catalog card (\<open>showLesson({ ...lesson })\<close>, an item without trigger time and
  context). The tag of a manual trigger and the coordinates are left arbitrary.
\<close>

datatype Action =
    Tick TickInputs
  | Trigger string ManualInputs
  | Open_item LessonItem
  | Dismiss
  | Mark_done
  | Reset
  | Add_tag string
  | Remove_tag string
  | Toggle
  | Located Coordinates

fun perform :: "Action \<Rightarrow> State \<Rightarrow> State" where
  "perform (Tick inp) s = ambientTick inp s"
| "perform (Trigger tag inp) s = manualTrigger tag inp s"
| "perform (Open_item item) s = showLesson item s"
| "perform Dismiss s = dismissLesson s"
| "perform Mark_done s = handleMarkDone s"
| "perform Reset s = resetDemo s"
| "perform (Add_tag t) s = addEnvTag t s"
| "perform (Remove_tag t) s = removeEnvTag t s"
| "perform Toggle s = toggleAmbientMode s"
| "perform (Located c) s = setLastLocation c s"

definition catalog_item :: "Lesson \<Rightarrow> LessonItem" where
  \<comment> \<open>\<open>{ ...lesson }\<close> read as a \<open>LessonItem\<close>\<close>
  "catalog_item lesson = Lesson.extend lesson (LessonItem.fields None None)"

fun enabled :: "Action \<Rightarrow> State \<Rightarrow> bool" where
  "enabled (Tick inp) s =
     (ambientOn s \<and> hour inp < 24 \<and> is_draw (r_mood inp) \<and> is_draw (r_idle inp) \<and>
      is_draw (r_waiting inp) \<and> is_draw (r_location inp) \<and> is_draw (r_pick inp) \<and>
      is_draw (r_fallback inp))"
| "enabled (Trigger tag inp) s = (is_draw (m_mood inp) \<and> is_draw (m_pick inp))"
| "enabled (Open_item item) s = (item \<in> set (queue s) \<or> item \<in> set (map catalog_item LESSONS))"
| "enabled Mark_done s = (currentLesson s \<noteq> None)"
| "enabled a s = True"

inductive reachable :: "State \<Rightarrow> bool" where
  mounted: "reachable (initial_state storedAmbientOn storedLessonsSeen storedEnvTags)"
| step: "reachable s \<Longrightarrow> enabled a s \<Longrightarrow> reachable (perform a s)"

subsection \<open>Example runs\<close>

text \<open>
  Concrete inputs for the worked examples below. \<open>full_queue_state\<close> is the state after
  five manual triggers on a freshly mounted component: each trigger finds a different
  lesson, so the queue holds five entries, newest first: e1, s1, a1, c1, p1.
\<close>

definition inputs0 :: ManualInputs where
  "inputs0 = \<lparr> m_mood = 0, m_pick = 0, m_now_item = 1000, m_now_marker = 1001 \<rparr>"

definition tick0 :: TickInputs where
  "tick0 = \<lparr> hour = 9, r_mood = 0, r_idle = 1/2, r_waiting = 1/2, r_location = 1/2,
              r_pick = 0, r_fallback = 0, now_item = 2000, now_marker = 2001 \<rparr>"

definition state0 :: State where
  "state0 = initial_state True Map.empty DEFAULT_ENV_TAGS"

definition full_queue_state :: State where
  "full_queue_state =
     manualTrigger ''Investing'' inputs0
       (manualTrigger ''Wellness'' inputs0
         (manualTrigger ''AI'' inputs0
           (manualTrigger ''Cooking'' inputs0
             (manualTrigger ''Focus'' inputs0 state0))))"

text \<open>
  \<open>opened_item\<close> is the catalog card of s1 as \<open>showLesson\<close> receives it;
  \<open>one_item_state\<close> is the state after one manual trigger (queue: p1, triggered at 1000);
  \<open>no_match_profile\<close> and \<open>no_match_context\<close> share no tag with any catalog lesson.
\<close>

definition opened_item :: LessonItem where
  "opened_item = catalog_item (LESSONS ! 3)"

definition inputs1 :: ManualInputs where
  "inputs1 = \<lparr> m_mood = 1/2, m_pick = 0, m_now_item = 5000, m_now_marker = 5001 \<rparr>"

definition one_item_state :: State where
  "one_item_state = manualTrigger ''Focus'' inputs0 state0"

definition no_match_profile :: Profile where
  "no_match_profile = INITIAL_PROFILE\<lparr> skills := [] \<rparr>"

definition no_match_context :: Context where
  "no_match_context = \<lparr> timeOfDay = Afternoon, ctx_tags = [''Relaxed''], coords = None, mood = ''Relaxed'' \<rparr>"

section \<open>Properties\<close>

subsection \<open>Time of day\<close>

lemma getTimeOfDay_from_5:
  "5 \<le> h \<Longrightarrow>
   getTimeOfDay h = (if h < 12 then Morning else if h < 17 then Afternoon else Evening)"
  by (simp add: getTimeOfDay_def)

lemma getTimeOfDay_before_5: "h < 5 \<Longrightarrow> getTimeOfDay h = Afternoon"
  by (simp add: getTimeOfDay_def)

subsection \<open>Arrays, draws and indexed reads\<close>

lemma includes_arr_set: "includes_arr xs y \<longleftrightarrow> y \<in> set xs"
  by (induction xs) auto

lemma some_arr_set: "some_arr p xs \<longleftrightarrow> (\<exists>x\<in>set xs. p x)"
  by (induction xs) auto

lemma index_read_in_set: "index_read xs i = Some x \<Longrightarrow> x \<in> set xs"
  by (auto simp: index_read_def split: if_splits)

lemma random_index_range:
  assumes "is_draw r" "0 < n"
  shows "0 \<le> random_index r n \<and> random_index r n < int n"
proof -
  from assms have "0 \<le> r * real n" "r * real n < real n"
    by (simp_all add: is_draw_def)
  then show ?thesis
    unfolding random_index_def by (simp add: floor_less_iff)
qed

lemma index_read_draw:
  assumes "is_draw r" "xs \<noteq> []"
  shows "\<exists>x. index_read xs (random_index r (length xs)) = Some x \<and> x \<in> set xs"
  using random_index_range [OF assms(1), of "length xs"] assms(2)
  by (auto simp: index_read_def)

lemma getMood_in_moods:
  assumes "is_draw r"
  shows "getMood r \<in> set moods"
proof -
  have "0 < length moods" by (simp add: moods_def)
  from random_index_range [OF assms this]
  have "nat (random_index r (length moods)) < length moods" by linarith
  then show ?thesis unfolding getMood_def by (rule nth_mem)
qed

lemma LESSONS_length: "length LESSONS = 6"
  by (simp add: LESSONS_def)

subsection \<open>The selector\<close>

lemma walk_in_set: "walk wcs r = Some l \<Longrightarrow> l \<in> fst ` set wcs"
  by (induction wcs r rule: walk.induct) (auto split: if_splits)

lemma candidates_subset: "set (candidates ctx p) \<subseteq> set LESSONS"
  by (auto simp: candidates_def)

lemma pick_catalog:
  assumes "is_draw rFallback"
  shows "\<exists>l. pickLessonForContext p seen ctx rPick rFallback = Some l \<and> l \<in> set LESSONS"
proof (cases "walk (weightedCandidates seen (candidates ctx p))
                (rPick * foldl (\<lambda>sum (lesson, weight). sum + weight) 0
                   (weightedCandidates seen (candidates ctx p)))")
  case None
  have "LESSONS \<noteq> []" using LESSONS_length by auto
  from index_read_draw [OF assms this] None show ?thesis
    by (auto simp: pickLessonForContext_def Let_def)
next
  case (Some l)
  then have "l \<in> fst ` set (weightedCandidates seen (candidates ctx p))"
    by (rule walk_in_set)
  then have "l \<in> set (candidates ctx p)"
    by (auto simp: weightedCandidates_def)
  then have "l \<in> set LESSONS"
    using candidates_subset [of ctx p] by blast
  have ne: "weightedCandidates seen (candidates ctx p) \<noteq> []"
    using Some by auto
  show ?thesis
    using Some \<open>l \<in> set LESSONS\<close> ne
    by (auto simp: pickLessonForContext_def Let_def)
qed

lemma manual_lesson_catalog:
  assumes "is_draw r"
  shows "\<exists>l. manual_lesson tag p r = Some l \<and> l \<in> set LESSONS"
proof (cases "relevantLessons tag p = []")
  case True
  have "LESSONS \<noteq> []" using LESSONS_length by auto
  from index_read_draw [OF assms this] True show ?thesis
    by (simp add: manual_lesson_def)
next
  case False
  from index_read_draw [OF assms False]
  obtain l where l: "index_read (relevantLessons tag p)
      (random_index r (length (relevantLessons tag p))) = Some l" "l \<in> set (relevantLessons tag p)"
    by blast
  then have "l \<in> set LESSONS" by (simp add: relevantLessons_def)
  with l False show ?thesis by (simp add: manual_lesson_def Let_def)
qed

subsection \<open>The queue stays within its bound\<close>

lemma enqueue_updater_length:
  "length q \<le> 5 \<Longrightarrow> length (enqueue_updater l ctx t q) \<le> 5"
  by (simp add: enqueue_updater_def)

lemma manual_updater_length:
  "length q \<le> 5 \<Longrightarrow> length (manual_updater l ctx t q) \<le> 5"
  by (simp add: manual_updater_def)

lemma perform_length:
  assumes "length (queue s) \<le> 5"
  shows "length (queue (perform a s)) \<le> 5"
proof (cases a)
  case (Tick inp)
  with assms show ?thesis
    by (simp add: ambientTick_def enqueueLesson_def enqueue_updater_length Let_def
        split: option.splits)
next
  case (Trigger tag inp)
  with assms show ?thesis
    by (simp add: manualTrigger_def manual_updater_length Let_def split: option.splits)
next
  case (Open_item item)
  have "length (filter (\<lambda>x. lesson_id x \<noteq> lesson_id item) (queue s)) \<le> 5"
    using length_filter_le assms by (rule order_trans)
  with Open_item show ?thesis by (simp add: showLesson_def)
next
  case Mark_done
  with assms show ?thesis
    by (simp add: handleMarkDone_def dismissLesson_def split: option.splits)
qed (use assms in \<open>simp_all add: dismissLesson_def resetDemo_def addEnvTag_def removeEnvTag_def
      toggleAmbientMode_def setLastLocation_def\<close>)

lemma reachable_length: "reachable s \<Longrightarrow> length (queue s) \<le> 5"
proof (induction rule: reachable.induct)
  case (mounted a seen tgs)
  show ?case by (simp add: initial_state_def)
next
  case (step s a)
  then show ?case by (simp add: perform_length)
qed

subsection \<open>The example run\<close>

lemma reachable_manualTrigger:
  "reachable s \<Longrightarrow> reachable (manualTrigger tag inputs0 s)"
  using reachable.step [of s "Trigger tag inputs0"]
  by (simp add: is_draw_def inputs0_def)

lemma reachable_state0: "reachable state0"
  unfolding state0_def by (rule reachable.mounted)

lemma reachable_full_queue_state: "reachable full_queue_state"
  unfolding full_queue_state_def
  by (intro reachable_manualTrigger reachable_state0)

lemmas run_defs =
  full_queue_state_def state0_def initial_state_def manualTrigger_def manual_lesson_def
  relevantLessons_def LESSONS_def INITIAL_PROFILE_def index_read_def random_index_def inputs0_def
  manual_updater_def newItem_def manual_context_def Lesson.extend_def LessonItem.fields_def
  DEFAULT_ENV_TAGS_def

lemma full_queue_ids:
  "map lesson_id (queue full_queue_state) = [''e1'', ''s1'', ''a1'', ''c1'', ''p1'']"
  by (simp add: run_defs)

lemma full_queue_profile: "profile full_queue_state = INITIAL_PROFILE"
  by (simp add: run_defs)

lemma full_queue_seen: "lessonsSeen full_queue_state = Map.empty"
  by (simp add: run_defs)


lemma take_4_of_5: "length q = 5 \<Longrightarrow> take 4 q = butlast q"
  by (simp add: butlast_conv_take)

lemma Habit_lesson:
  "manual_lesson ''Habit'' INITIAL_PROFILE 0 = Some (LESSONS ! 5)"
  by (simp add: manual_lesson_def relevantLessons_def LESSONS_def INITIAL_PROFILE_def
      index_read_def random_index_def)

lemma h1_id: "lesson_id (LESSONS ! 5) = ''h1''"
  by (simp add: LESSONS_def)

lemma full_queue_envTags: "envTags full_queue_state = DEFAULT_ENV_TAGS"
  by (simp add: run_defs)

lemma one_item_queue:
  "map lesson_id (queue one_item_state) = [''p1'']"
  "map triggeredAt (queue one_item_state) = [Some 1000]"
  "profile one_item_state = INITIAL_PROFILE"
  "lessonsSeen one_item_state = Map.empty"
  "envTags one_item_state = DEFAULT_ENV_TAGS"
  by (simp_all add: one_item_state_def run_defs)

lemma opened_item_id: "lesson_id opened_item = ''s1''"
  by (simp add: opened_item_def catalog_item_def LESSONS_def Lesson.extend_def)

lemma opened_item_xp: "xp opened_item = 20"
  by (simp add: opened_item_def catalog_item_def LESSONS_def Lesson.extend_def)

lemma Focus_lesson: "manual_lesson ''Focus'' INITIAL_PROFILE 0 = Some (LESSONS ! 0)"
  by (simp add: manual_lesson_def relevantLessons_def LESSONS_def INITIAL_PROFILE_def
      index_read_def random_index_def)

lemma p1_id: "lesson_id (LESSONS ! 0) = ''p1''"
  by (simp add: LESSONS_def)

lemma tick0_context:
  "buildSimulatedContext tick0 s =
     \<lparr> timeOfDay = Morning,
       ctx_tags = envTags s @ [''Morning'', ''Focused''],
       coords = lastLocation s, mood = ''Focused'' \<rparr>"
  by (simp add: buildSimulatedContext_def tick0_def getTimeOfDay_def getMood_def moods_def
      random_index_def push_def Let_def)

lemma tick0_candidates:
  "candidates \<lparr> timeOfDay = Morning,
       ctx_tags = DEFAULT_ENV_TAGS @ [''Morning'', ''Focused''],
       coords = c, mood = ''Focused'' \<rparr> INITIAL_PROFILE
   = [LESSONS ! 0, LESSONS ! 2, LESSONS ! 3, LESSONS ! 4, LESSONS ! 5]"
  by (simp add: candidates_def DEFAULT_ENV_TAGS_def LESSONS_def INITIAL_PROFILE_def)

lemma tick0_pick:
  "pickLessonForContext INITIAL_PROFILE Map.empty
     \<lparr> timeOfDay = Morning,
       ctx_tags = DEFAULT_ENV_TAGS @ [''Morning'', ''Focused''],
       coords = c, mood = ''Focused'' \<rparr> 0 rf
     = Some (LESSONS ! 0)"
  unfolding pickLessonForContext_def tick0_candidates
  by (simp add: weightedCandidates_def seen_or_0_def Let_def)

subsection \<open>Inserting a lesson that is already queued\<close>

lemma enqueue_updater_duplicate:
  "lesson_id l \<in> lesson_id ` set q \<Longrightarrow> enqueue_updater l ctx t q = q"
  by (auto simp: enqueue_updater_def some_arr_set)

lemma manual_updater_duplicate:
  "lesson_id l \<in> lesson_id ` set q \<Longrightarrow> manual_updater l ctx t q = q"
  by (auto simp: manual_updater_def some_arr_set)

subsection \<open>The claims\<close>

text \<open>
  C1. The claim puts the hours 0 to 4 in the evening. \<open>getTimeOfDay\<close> tests
  \<open>hour < 17\<close> without a lower bound after the morning test, so at 3 o'clock at night it
  answers afternoon.
\<close>

theorem getTimeOfDay_at_3: "getTimeOfDay 3 = Afternoon \<and> getTimeOfDay 3 \<noteq> Evening"
  by (simp add: getTimeOfDay_def)


text \<open>
  The filter of the ambient tick keeps exactly the catalog lessons, in catalog order, that
  have a tag occurring in the context's tag sequence or in the profile's skills.
\<close>

lemma candidates_tag_overlap:
  "candidates ctx p =
     filter (\<lambda>l. set (tags l) \<inter> (set (ctx_tags ctx) \<union> set (skills p)) \<noteq> {}) LESSONS"
  unfolding candidates_def
  by (rule filter_cong) (auto simp: some_arr_set includes_arr_set)

text \<open>
  C2. The claim gives the manual trigger the same candidates as the ambient tick: the
  catalog lessons with a tag in the context's tags or in the profile's skills, which is
  what \<open>candidates\<close> computes on the manual context. The filter of \<open>manualTrigger\<close>
  tests \<open>profile.skills.includes(tag)\<close> on the requested tag, not on a tag of the
  lesson. With the requested tag Focus it keeps p1 only, where the claim's candidates are
  p1, s1, e1 (s1 and e1 carry the skills Mindfulness and Finance). With the requested tag
  Productivity, itself one of the skills, it keeps all six lessons, where the claim's
  candidates are again p1, s1, e1 (c1, a1 and h1 have no tag in the context or the skills).
\<close>

theorem manualTrigger_candidates_diverge:
  "map lesson_id (relevantLessons ''Focus'' INITIAL_PROFILE) = [''p1'']
   \<and> map lesson_id (candidates (manual_context ''Focus'' inputs0 state0) INITIAL_PROFILE)
       = [''p1'', ''s1'', ''e1'']
   \<and> map lesson_id (relevantLessons ''Productivity'' INITIAL_PROFILE)
       = [''p1'', ''c1'', ''a1'', ''s1'', ''e1'', ''h1'']
   \<and> map lesson_id (candidates (manual_context ''Productivity'' inputs0 state0) INITIAL_PROFILE)
       = [''p1'', ''s1'', ''e1'']"
proof -
  have "map lesson_id (relevantLessons ''Focus'' INITIAL_PROFILE) = [''p1'']"
    by (simp add: relevantLessons_def LESSONS_def INITIAL_PROFILE_def)
  moreover have
    "map lesson_id (candidates (manual_context ''Focus'' inputs0 state0) INITIAL_PROFILE)
       = [''p1'', ''s1'', ''e1'']"
    by (simp add: candidates_def manual_context_def LESSONS_def INITIAL_PROFILE_def)
  moreover have "map lesson_id (relevantLessons ''Productivity'' INITIAL_PROFILE)
       = [''p1'', ''c1'', ''a1'', ''s1'', ''e1'', ''h1'']"
    by (simp add: relevantLessons_def LESSONS_def INITIAL_PROFILE_def)
  moreover have
    "map lesson_id (candidates (manual_context ''Productivity'' inputs0 state0) INITIAL_PROFILE)
       = [''p1'', ''s1'', ''e1'']"
    by (simp add: candidates_def manual_context_def LESSONS_def INITIAL_PROFILE_def)
  ultimately show ?thesis by blast
qed

text \<open>
  C3 (as amended). When the queue holds five entries and the lesson is not queued yet, the
  automatic enqueue (and so the whole ambient tick) leaves the queue as it is; the manual
  trigger puts the new item in front and drops the last entry of the queue, the other four
  keeping their order.
\<close>

theorem full_queue_insertion:
  assumes "length (queue s) = 5"
    and "lesson_id l \<notin> lesson_id ` set (queue s)"
  shows "queue (enqueueLesson l ctx t1 t2 s) = queue s
    \<and> queue (ambientTick inp s) = queue s
    \<and> (manual_lesson tag (profile s) (m_pick minp) = Some l \<longrightarrow>
         queue (manualTrigger tag minp s) =
           newItem l (m_now_item minp) (manual_context tag minp s) # butlast (queue s))"
proof -
  have enq: "enqueue_updater l' c t (queue s) = queue s" for l' c t
    using assms(1) by (simp add: enqueue_updater_def)
  have "queue (enqueueLesson l ctx t1 t2 s) = queue s"
    by (simp add: enqueueLesson_def enq)
  moreover have "queue (ambientTick inp s) = queue s"
    by (simp add: ambientTick_def enqueueLesson_def enq Let_def split: option.splits)
  moreover have "manual_lesson tag (profile s) (m_pick minp) = Some l \<longrightarrow>
         queue (manualTrigger tag minp s) =
           newItem l (m_now_item minp) (manual_context tag minp s) # butlast (queue s)"
  proof -
    have "\<not> some_arr (\<lambda>item. lesson_id item = lesson_id l) (queue s)"
      using assms(2) unfolding some_arr_set by (metis image_eqI)
    then show ?thesis
      by (simp add: manualTrigger_def manual_updater_def Let_def take_4_of_5 [OF assms(1)])
  qed
  ultimately show ?thesis by blast
qed

theorem full_queue_insertion_witness:
  "length (queue full_queue_state) = 5
   \<and> lesson_id (LESSONS ! 5) \<notin> lesson_id ` set (queue full_queue_state)
   \<and> manual_lesson ''Habit'' (profile full_queue_state) (m_pick inputs0) = Some (LESSONS ! 5)
   \<and> queue (enqueueLesson (LESSONS ! 5) (buildSimulatedContext tick0 full_queue_state) 2000 2001
               full_queue_state) = queue full_queue_state
   \<and> queue (ambientTick tick0 full_queue_state) = queue full_queue_state
   \<and> queue (manualTrigger ''Habit'' inputs0 full_queue_state) =
       newItem (LESSONS ! 5) (m_now_item inputs0) (manual_context ''Habit'' inputs0 full_queue_state)
         # butlast (queue full_queue_state)"
proof -
  have len: "length (queue full_queue_state) = 5"
    using arg_cong [OF full_queue_ids, of length] by simp
  have "lesson_id ` set (queue full_queue_state) = set (map lesson_id (queue full_queue_state))"
    by simp
  then have fresh: "lesson_id (LESSONS ! 5) \<notin> lesson_id ` set (queue full_queue_state)"
    unfolding full_queue_ids h1_id by simp
  have pick: "manual_lesson ''Habit'' (profile full_queue_state) (m_pick inputs0) = Some (LESSONS ! 5)"
    by (simp add: full_queue_profile Habit_lesson inputs0_def)
  from full_queue_insertion [OF len fresh,
      of "buildSimulatedContext tick0 full_queue_state" 2000 2001 tick0 "''Habit''" inputs0]
    len fresh pick
  show ?thesis by blast
qed

text \<open>
  C3 as stated fails on a manual trigger: triggering the tag Habit on the full queue
  e1, s1, a1, c1, p1 puts h1 in front and evicts p1.
\<close>

theorem manual_trigger_full_queue_counterexample:
  "length (queue full_queue_state) = 5
   \<and> \<not> includes_arr (map lesson_id (queue full_queue_state)) ''h1''
   \<and> manual_lesson ''Habit'' (profile full_queue_state) (m_pick inputs0) = Some (LESSONS ! 5)
   \<and> lesson_id (LESSONS ! 5) = ''h1''
   \<and> map lesson_id (queue (manualTrigger ''Habit'' inputs0 full_queue_state)) =
       [''h1'', ''e1'', ''s1'', ''a1'', ''c1'']
   \<and> queue (manualTrigger ''Habit'' inputs0 full_queue_state) \<noteq> queue full_queue_state"
proof -
  have ids: "map lesson_id (queue (manualTrigger ''Habit'' inputs0 full_queue_state)) =
       [''h1'', ''e1'', ''s1'', ''a1'', ''c1'']"
    by (simp add: run_defs)
  then have "map lesson_id (queue (manualTrigger ''Habit'' inputs0 full_queue_state))
      \<noteq> map lesson_id (queue full_queue_state)"
    unfolding full_queue_ids by simp
  then have "queue (manualTrigger ''Habit'' inputs0 full_queue_state) \<noteq> queue full_queue_state"
    by auto
  moreover have "length (queue full_queue_state) = 5"
    using arg_cong [OF full_queue_ids, of length] by simp
  moreover have "\<not> includes_arr (map lesson_id (queue full_queue_state)) ''h1''"
    unfolding full_queue_ids by simp
  moreover have "manual_lesson ''Habit'' (profile full_queue_state) (m_pick inputs0) = Some (LESSONS ! 5)"
    by (simp add: full_queue_profile Habit_lesson inputs0_def)
  ultimately show ?thesis using ids h1_id by blast
qed

text \<open>
  C4. In every reachable state the queue holds at most five entries, and it still does after
  any operation on that state (ambient tick, manual trigger, open, dismiss, complete, reset,
  the tag editor, the ambient toggle, a geolocation fix) and after the ambient enqueue of any
  lesson.
\<close>

theorem queue_length_invariant:
  assumes "reachable s"
  shows "length (queue s) \<le> 5
    \<and> length (queue (perform a s)) \<le> 5
    \<and> length (queue (enqueueLesson l ctx t1 t2 s)) \<le> 5"
proof -
  have len: "length (queue s) \<le> 5"
    using assms by (rule reachable_length)
  moreover have "length (queue (perform a s)) \<le> 5"
    using len by (rule perform_length)
  moreover have "length (queue (enqueueLesson l ctx t1 t2 s)) \<le> 5"
    using len by (simp add: enqueueLesson_def enqueue_updater_length)
  ultimately show ?thesis by blast
qed

theorem queue_length_invariant_witness:
  "reachable full_queue_state
   \<and> length (queue full_queue_state) = 5
   \<and> length (queue (perform (Trigger ''Habit'' inputs0) full_queue_state)) \<le> 5
   \<and> length (queue (enqueueLesson (LESSONS ! 5) (buildSimulatedContext tick0 full_queue_state)
                 2000 2001 full_queue_state)) \<le> 5"
proof -
  have "length (queue full_queue_state) = 5"
    using arg_cong [OF full_queue_ids, of length] by simp
  with queue_length_invariant [OF reachable_full_queue_state,
      of "Trigger ''Habit'' inputs0" "LESSONS ! 5" "buildSimulatedContext tick0 full_queue_state" 2000 2001]
    reachable_full_queue_state
  show ?thesis by blast
qed

text \<open>
  C5. Opening a lesson sets its seen counter to one more than before (an absent entry
  counting as 0), adds the lesson's reward to the profile's experience points, adds 1 to the
  streak, and leaves in the queue exactly the entries with another identifier, in their
  order and unchanged; the opened lesson becomes the displayed one.
\<close>

theorem showLesson_effect:
  "lessonsSeen (showLesson l s) (lesson_id l) =
     Some ((case lessonsSeen s (lesson_id l) of None \<Rightarrow> 0 | Some n \<Rightarrow> n) + 1)
   \<and> profile_xp (profile (showLesson l s)) = profile_xp (profile s) + xp l
   \<and> streak (profile (showLesson l s)) = streak (profile s) + 1
   \<and> queue (showLesson l s) = filter (\<lambda>x. lesson_id x \<noteq> lesson_id l) (queue s)
   \<and> (\<forall>x\<in>set (queue (showLesson l s)). lesson_id x \<noteq> lesson_id l)
   \<and> (\<forall>x\<in>set (queue s). lesson_id x \<noteq> lesson_id l \<longrightarrow> x \<in> set (queue (showLesson l s)))
   \<and> subseq (queue (showLesson l s)) (queue s)
   \<and> currentLesson (showLesson l s) = Some l"
proof -
  have seen: "seen_or_0 (lessonsSeen s) (lesson_id l) =
      (case lessonsSeen s (lesson_id l) of None \<Rightarrow> 0 | Some n \<Rightarrow> n)"
    by (simp add: seen_or_0_def split: option.splits)
  have q: "queue (showLesson l s) = filter (\<lambda>x. lesson_id x \<noteq> lesson_id l) (queue s)"
    by (simp add: showLesson_def)
  have "lessonsSeen (showLesson l s) (lesson_id l) =
     Some ((case lessonsSeen s (lesson_id l) of None \<Rightarrow> 0 | Some n \<Rightarrow> n) + 1)"
    by (simp add: showLesson_def seen)
  moreover have "profile_xp (profile (showLesson l s)) = profile_xp (profile s) + xp l"
    by (simp add: showLesson_def)
  moreover have "streak (profile (showLesson l s)) = streak (profile s) + 1"
    by (simp add: showLesson_def)
  moreover have "\<forall>x\<in>set (queue (showLesson l s)). lesson_id x \<noteq> lesson_id l"
    unfolding q by simp
  moreover have "\<forall>x\<in>set (queue s). lesson_id x \<noteq> lesson_id l \<longrightarrow> x \<in> set (queue (showLesson l s))"
    unfolding q by simp
  moreover have "subseq (queue (showLesson l s)) (queue s)"
    unfolding q by (rule subseq_filter_left)
  moreover have "currentLesson (showLesson l s) = Some l"
    by (simp add: showLesson_def)
  ultimately show ?thesis using q by blast
qed

theorem showLesson_effect_witness:
  "lessonsSeen (showLesson opened_item full_queue_state) ''s1'' = Some 1
   \<and> profile_xp (profile (showLesson opened_item full_queue_state)) = 265
   \<and> streak (profile (showLesson opened_item full_queue_state)) = 15
   \<and> map lesson_id (queue (showLesson opened_item full_queue_state)) = [''e1'', ''a1'', ''c1'', ''p1'']
   \<and> subseq (queue (showLesson opened_item full_queue_state)) (queue full_queue_state)"
proof -
  note eff = showLesson_effect [of opened_item full_queue_state]
  have "lessonsSeen (showLesson opened_item full_queue_state) ''s1'' = Some 1"
    using eff [THEN conjunct1] by (simp add: opened_item_id full_queue_seen)
  moreover have "profile_xp (profile (showLesson opened_item full_queue_state)) = 265"
    using eff [THEN conjunct2, THEN conjunct1]
    by (simp add: opened_item_xp full_queue_profile INITIAL_PROFILE_def)
  moreover have "streak (profile (showLesson opened_item full_queue_state)) = 15"
    using eff [THEN conjunct2, THEN conjunct2, THEN conjunct1]
    by (simp add: full_queue_profile INITIAL_PROFILE_def)
  moreover have "map lesson_id (queue (showLesson opened_item full_queue_state))
      = [''e1'', ''a1'', ''c1'', ''p1'']"
  proof -
    have "map lesson_id (queue (showLesson opened_item full_queue_state)) =
        filter (\<lambda>i. i \<noteq> ''s1'') (map lesson_id (queue full_queue_state))"
      unfolding eff [THEN conjunct2, THEN conjunct2, THEN conjunct2, THEN conjunct1] opened_item_id
      by (simp add: filter_map comp_def)
    then show ?thesis unfolding full_queue_ids by simp
  qed
  moreover have "subseq (queue (showLesson opened_item full_queue_state)) (queue full_queue_state)"
    using eff by blast
  ultimately show ?thesis by blast
qed

text \<open>
  C6. For every context, profile and seen-counter map, and every draw of the fallback in
  \<open>[0, 1)\<close>, the selector returns a lesson, and that lesson is one of the six of the
  catalog.
\<close>

theorem pickLessonForContext_in_catalog:
  assumes "is_draw rFallback"
  shows "length LESSONS = 6
    \<and> (\<exists>l. pickLessonForContext p seen ctx rPick rFallback = Some l \<and> l \<in> set LESSONS)"
  using pick_catalog [OF assms] LESSONS_length by blast

theorem pickLessonForContext_in_catalog_witness:
  "is_draw (1/2)
   \<and> candidates no_match_context no_match_profile = []
   \<and> (\<exists>l. pickLessonForContext no_match_profile Map.empty no_match_context (1/2) (1/2) = Some l
          \<and> l \<in> set LESSONS)"
proof -
  have d: "is_draw (1/2)" by (simp add: is_draw_def)
  have "candidates no_match_context no_match_profile = []"
    by (simp add: candidates_def no_match_context_def no_match_profile_def LESSONS_def
        INITIAL_PROFILE_def)
  with d pickLessonForContext_in_catalog [OF d, of no_match_profile Map.empty no_match_context "1/2"]
  show ?thesis by blast
qed

text \<open>
  C7. While a lesson is displayed, marking it complete adds its reward to the experience
  points once more; opening a lesson and then completing it adds twice its reward.
\<close>

theorem mark_done_double_credit:
  "(currentLesson s = Some cl \<longrightarrow>
      profile_xp (profile (handleMarkDone s)) = profile_xp (profile s) + xp cl)
   \<and> profile_xp (profile (handleMarkDone (showLesson l s))) = profile_xp (profile s) + 2 * xp l"
  by (simp add: handleMarkDone_def dismissLesson_def showLesson_def)

theorem mark_done_double_credit_witness:
  "currentLesson (showLesson opened_item state0) = Some opened_item
   \<and> profile_xp (profile (showLesson opened_item state0)) = 265
   \<and> profile_xp (profile (handleMarkDone (showLesson opened_item state0))) = 285"
proof -
  have cur: "currentLesson (showLesson opened_item state0) = Some opened_item"
    by (simp add: showLesson_def)
  have xp1: "profile_xp (profile (showLesson opened_item state0)) = 265"
    by (simp add: showLesson_def opened_item_xp state0_def initial_state_def INITIAL_PROFILE_def)
  from mark_done_double_credit [of "showLesson opened_item state0" opened_item, THEN conjunct1] cur
  have "profile_xp (profile (handleMarkDone (showLesson opened_item state0))) =
      profile_xp (profile (showLesson opened_item state0)) + xp opened_item"
    by blast
  with cur xp1 show ?thesis by (simp add: opened_item_xp)
qed

text \<open>
  C8. When the identifier of the lesson already occurs in the queue, the automatic enqueue,
  the ambient tick that selected the lesson and the manual trigger that selected it all
  leave the queue exactly as it was.
\<close>

theorem duplicate_insertion_noop:
  assumes "lesson_id l \<in> lesson_id ` set (queue s)"
  shows "queue (enqueueLesson l ctx t1 t2 s) = queue s
    \<and> (pickLessonForContext (profile s) (lessonsSeen s) (buildSimulatedContext inp s)
          (r_pick inp) (r_fallback inp) = Some l \<longrightarrow>
        queue (ambientTick inp s) = queue s)
    \<and> (manual_lesson tag (profile s) (m_pick minp) = Some l \<longrightarrow>
        queue (manualTrigger tag minp s) = queue s)"
  using enqueue_updater_duplicate [OF assms] manual_updater_duplicate [OF assms]
  by (simp add: enqueueLesson_def ambientTick_def manualTrigger_def Let_def)

theorem duplicate_insertion_noop_witness:
  "lesson_id (LESSONS ! 0) \<in> lesson_id ` set (queue one_item_state)
   \<and> queue (enqueueLesson (LESSONS ! 0) no_match_context 7000 7001 one_item_state) = queue one_item_state
   \<and> queue (ambientTick tick0 one_item_state) = queue one_item_state
   \<and> queue (manualTrigger ''Focus'' inputs1 one_item_state) = queue one_item_state
   \<and> map triggeredAt (queue (manualTrigger ''Focus'' inputs1 one_item_state)) = [Some 1000]"
proof -
  have "lesson_id ` set (queue one_item_state) = set (map lesson_id (queue one_item_state))"
    by simp
  then have dup: "lesson_id (LESSONS ! 0) \<in> lesson_id ` set (queue one_item_state)"
    unfolding one_item_queue p1_id by simp
  have tick: "pickLessonForContext (profile one_item_state) (lessonsSeen one_item_state)
      (buildSimulatedContext tick0 one_item_state) (r_pick tick0) (r_fallback tick0) = Some (LESSONS ! 0)"
    unfolding tick0_context one_item_queue
    using tick0_pick by (simp add: tick0_def)
  have man: "manual_lesson ''Focus'' (profile one_item_state) (m_pick inputs1) = Some (LESSONS ! 0)"
    by (simp add: one_item_queue Focus_lesson inputs1_def)
  from duplicate_insertion_noop [OF dup, of no_match_context 7000 7001 tick0 "''Focus''" inputs1]
    dup tick man
  have "lesson_id (LESSONS ! 0) \<in> lesson_id ` set (queue one_item_state)
   \<and> queue (enqueueLesson (LESSONS ! 0) no_match_context 7000 7001 one_item_state) = queue one_item_state
   \<and> queue (ambientTick tick0 one_item_state) = queue one_item_state
   \<and> queue (manualTrigger ''Focus'' inputs1 one_item_state) = queue one_item_state"
    by blast
  then show ?thesis by (simp add: one_item_queue)
qed

text \<open>
  C9. From any state, reset makes the profile the initial one (name Alex Chen, the five
  skills, 245 experience points, streak 14, level 7), empties the queue and the seen
  counters, and sets the environment tags to Focus, Learning, Wellness.
\<close>

theorem resetDemo_restores:
  "profile (resetDemo s) = INITIAL_PROFILE
   \<and> name (profile (resetDemo s)) = ''Alex Chen''
   \<and> skills (profile (resetDemo s)) =
       [''Productivity'', ''AI Literacy'', ''Culinary Arts'', ''Mindfulness'', ''Finance'']
   \<and> length (skills (profile (resetDemo s))) = 5
   \<and> profile_xp (profile (resetDemo s)) = 245
   \<and> streak (profile (resetDemo s)) = 14
   \<and> level (profile (resetDemo s)) = 7
   \<and> queue (resetDemo s) = []
   \<and> lessonsSeen (resetDemo s) = Map.empty
   \<and> envTags (resetDemo s) = [''Focus'', ''Learning'', ''Wellness'']
   \<and> length (envTags (resetDemo s)) = 3
   \<and> currentLesson (resetDemo s) = None"
  by (simp add: resetDemo_def INITIAL_PROFILE_def DEFAULT_ENV_TAGS_def)

text \<open>
  C10. The last-trigger marker is set to the selected lesson's identifier and the time read
  for it, whatever the queue does with the insertion: after \<open>enqueueLesson\<close>, after an
  ambient tick and after a manual trigger. With draws in \<open>[0, 1)\<close> every ambient tick
  and every manual trigger selects a catalog lesson and so sets the marker.
\<close>

theorem lastTrigger_always_set:
  "lastTrigger (enqueueLesson l ctx t1 t2 s) = Some \<lparr> lessonId = lesson_id l, trigger_at = t2 \<rparr>
   \<and> (pickLessonForContext (profile s) (lessonsSeen s) (buildSimulatedContext inp s)
          (r_pick inp) (r_fallback inp) = Some l \<longrightarrow>
        lastTrigger (ambientTick inp s) =
          Some \<lparr> lessonId = lesson_id l, trigger_at = now_marker inp \<rparr>)
   \<and> (manual_lesson tag (profile s) (m_pick minp) = Some l \<longrightarrow>
        lastTrigger (manualTrigger tag minp s) =
          Some \<lparr> lessonId = lesson_id l, trigger_at = m_now_marker minp \<rparr>)
   \<and> (is_draw (r_fallback inp) \<longrightarrow>
        (\<exists>l'. l' \<in> set LESSONS \<and> lastTrigger (ambientTick inp s) =
          Some \<lparr> lessonId = lesson_id l', trigger_at = now_marker inp \<rparr>))
   \<and> (is_draw (m_pick minp) \<longrightarrow>
        (\<exists>l'. l' \<in> set LESSONS \<and> lastTrigger (manualTrigger tag minp s) =
          Some \<lparr> lessonId = lesson_id l', trigger_at = m_now_marker minp \<rparr>))"
proof -
  have a: "lastTrigger (enqueueLesson l ctx t1 t2 s) =
      Some \<lparr> lessonId = lesson_id l, trigger_at = t2 \<rparr>" for l ctx t1 t2
    by (simp add: enqueueLesson_def)
  have b: "lastTrigger (ambientTick inp s) =
          Some \<lparr> lessonId = lesson_id l, trigger_at = now_marker inp \<rparr>"
    if "pickLessonForContext (profile s) (lessonsSeen s) (buildSimulatedContext inp s)
          (r_pick inp) (r_fallback inp) = Some l" for l
    using that by (simp add: ambientTick_def Let_def a)
  have c: "lastTrigger (manualTrigger tag minp s) =
          Some \<lparr> lessonId = lesson_id l, trigger_at = m_now_marker minp \<rparr>"
    if "manual_lesson tag (profile s) (m_pick minp) = Some l" for l
    using that by (simp add: manualTrigger_def Let_def)
  have d: "\<exists>l'. l' \<in> set LESSONS \<and> lastTrigger (ambientTick inp s) =
          Some \<lparr> lessonId = lesson_id l', trigger_at = now_marker inp \<rparr>"
    if "is_draw (r_fallback inp)"
    using pick_catalog [OF that, of "profile s" "lessonsSeen s" "buildSimulatedContext inp s" "r_pick inp"] b
    by blast
  have e: "\<exists>l'. l' \<in> set LESSONS \<and> lastTrigger (manualTrigger tag minp s) =
          Some \<lparr> lessonId = lesson_id l', trigger_at = m_now_marker minp \<rparr>"
    if "is_draw (m_pick minp)"
    using manual_lesson_catalog [OF that, of tag "profile s"] c by blast
  from a b c d e show ?thesis by blast
qed

theorem lastTrigger_always_set_witness:
  "queue (manualTrigger ''Focus'' inputs1 full_queue_state) = queue full_queue_state
   \<and> lastTrigger (manualTrigger ''Focus'' inputs1 full_queue_state) =
       Some \<lparr> lessonId = ''p1'', trigger_at = 5001 \<rparr>
   \<and> queue (ambientTick tick0 full_queue_state) = queue full_queue_state
   \<and> lastTrigger (ambientTick tick0 full_queue_state) =
       Some \<lparr> lessonId = ''p1'', trigger_at = 2001 \<rparr>"
proof -
  have "lesson_id ` set (queue full_queue_state) = set (map lesson_id (queue full_queue_state))"
    by simp
  then have dup: "lesson_id (LESSONS ! 0) \<in> lesson_id ` set (queue full_queue_state)"
    unfolding full_queue_ids p1_id by simp
  have tick: "pickLessonForContext (profile full_queue_state) (lessonsSeen full_queue_state)
      (buildSimulatedContext tick0 full_queue_state) (r_pick tick0) (r_fallback tick0) = Some (LESSONS ! 0)"
    unfolding tick0_context full_queue_profile full_queue_seen full_queue_envTags
    using tick0_pick by (simp add: tick0_def)
  have man: "manual_lesson ''Focus'' (profile full_queue_state) (m_pick inputs1) = Some (LESSONS ! 0)"
    by (simp add: full_queue_profile Focus_lesson inputs1_def)
  have q1: "queue (manualTrigger ''Focus'' inputs1 full_queue_state) = queue full_queue_state"
    using man manual_updater_duplicate [OF dup] by (simp add: manualTrigger_def Let_def)
  have q2: "queue (ambientTick tick0 full_queue_state) = queue full_queue_state"
    using tick enqueue_updater_duplicate [OF dup]
    by (simp add: ambientTick_def enqueueLesson_def Let_def)
  from lastTrigger_always_set [of "LESSONS ! 0" no_match_context 0 0 full_queue_state tick0 "''Focus''" inputs1]
    tick man
  have "lastTrigger (ambientTick tick0 full_queue_state) =
          Some \<lparr> lessonId = lesson_id (LESSONS ! 0), trigger_at = now_marker tick0 \<rparr>"
    and "lastTrigger (manualTrigger ''Focus'' inputs1 full_queue_state) =
          Some \<lparr> lessonId = lesson_id (LESSONS ! 0), trigger_at = m_now_marker inputs1 \<rparr>"
    by blast+
  with q1 q2 show ?thesis by (simp add: p1_id tick0_def inputs1_def)
qed

end
